theory Spec2Isabelle
  imports Complex_Main "HOL-Library.Sublist"
begin

section \<open>Definitions\<close>

subsection \<open>JavaInfo::canRun (source/SYSTEM/JavaInfo.cpp)\<close>

text \<open>
  \<^verbatim>\<open>canRun\<close> talks to its surroundings in four ways: \<^verbatim>\<open>File::find\<close> (which throws when the
  executable is not found), \<^verbatim>\<open>QDir::isRelativePath\<close>, \<^verbatim>\<open>getenv("PATH")\<close> and the
  \<^verbatim>\<open>QProcess\<close> it starts and waits for. They are the fields of \<open>environment\<close>.
  The function's own state is the function-local \<^verbatim>\<open>static String path\<close> and what it has
  done so far: the messages written to \<^verbatim>\<open>LOG_ERROR\<close> and the processes started.
\<close>

record environment =
  File_find :: "string \<Rightarrow> string option"
  isRelativePath :: "string \<Rightarrow> bool"
  getenv_PATH :: string
  on_APPLE :: bool
  waitForFinished :: "string \<Rightarrow> string list \<Rightarrow> bool"

datatype log_message =
    JavaNotFound string
  | AddToPathHint string bool
  | AbsolutePathHint
  | FoundButNotExecutable string

datatype action =
    LOG_ERROR log_message
  | QProcess_start string "string list"

record java_state =
  path :: string
  actions :: "action list"

definition do_action :: "action \<Rightarrow> java_state \<Rightarrow> java_state" where
  "do_action a st = st\<lparr>actions := actions st @ [a]\<rparr>"

text \<open>Lines 64 to 84: the hint that follows the "not found" message.\<close>

definition path_hint :: "environment \<Rightarrow> string \<Rightarrow> java_state \<Rightarrow> java_state" where
  "path_hint env java_executable st =
     (if isRelativePath env java_executable then
        (let st' = (if path st = [] then st\<lparr>path := getenv_PATH env\<rparr> else st)
         in do_action (LOG_ERROR (AddToPathHint (path st') (on_APPLE env))) st')
      else do_action (LOG_ERROR AbsolutePathHint) st)"

text \<open>Lines 93 to 102: start the process with \<^verbatim>\<open>-version\<close> and wait for it.\<close>

definition check_run :: "environment \<Rightarrow> string \<Rightarrow> bool \<Rightarrow> java_state \<Rightarrow> bool \<times> java_state" where
  "check_run env java_executable verbose_on_error st =
     (let st1 = do_action (QProcess_start java_executable [''-version'']) st;
          success = waitForFinished env java_executable [''-version''];
          st2 = (if \<not> success \<and> verbose_on_error
                 then do_action (LOG_ERROR (FoundButNotExecutable java_executable)) st1
                 else st1)
      in (success, st2))"

text \<open>
  The whole function. \<open>File_find env x = None\<close> is the exception of \<^verbatim>\<open>File::find\<close>; the
  handler \<^verbatim>\<open>catch (...)\<close> returns only inside \<^verbatim>\<open>if (verbose_on_error)\<close>, otherwise
  control leaves the handler and reaches the second check.
\<close>

definition canRun :: "environment \<Rightarrow> string \<Rightarrow> bool \<Rightarrow> java_state \<Rightarrow> bool \<times> java_state" where
  "canRun env java_executable verbose_on_error st =
     (case File_find env java_executable of
        None \<Rightarrow>
          (if verbose_on_error then
             (False, path_hint env java_executable
                       (do_action (LOG_ERROR (JavaNotFound java_executable)) st))
           else check_run env java_executable verbose_on_error st)
      | Some found \<Rightarrow> check_run env java_executable verbose_on_error st)"

definition started :: "java_state \<Rightarrow> (string \<times> string list) list" where
  "started st = concat (map (\<lambda>a. case a of QProcess_start e args \<Rightarrow> [(e, args)] | LOG_ERROR m \<Rightarrow> []) (actions st))"

definition logged :: "java_state \<Rightarrow> log_message list" where
  "logged st = concat (map (\<lambda>a. case a of LOG_ERROR m \<Rightarrow> [m] | QProcess_start e args \<Rightarrow> []) (actions st))"

text \<open>An environment in which the file lookup fails and the process nevertheless finishes.\<close>

definition env_lookup_fails :: environment where
  "env_lookup_fails =
     \<lparr>File_find = (\<lambda>x. None), isRelativePath = (\<lambda>x. True), getenv_PATH = ''/usr/bin'',
      on_APPLE = False, waitForFinished = (\<lambda>x args. True)\<rparr>"

definition fresh :: java_state where
  "fresh = \<lparr>path = [], actions = []\<rparr>"

subsection \<open>BaseLabeler (include/OpenMS/SIMULATION/LABELING/BaseLabeler.h)\<close>

text \<open>
  The virtual member functions of \<^verbatim>\<open>BaseLabeler\<close> have their bodies in the header. A body
  either returns normally or leaves by a \<^verbatim>\<open>throw\<close>; the result type is \<open>thrown + 'a\<close>, with
  \<open>Inl\<close> for the throw and \<open>Inr\<close> for the arguments passed by reference as they are on
  return. A \<^verbatim>\<open>throw\<close> expression throws either an object (\<^verbatim>\<open>throw X(...)\<close>) or a pointer to
  a heap object (\<^verbatim>\<open>throw new X(...)\<close>). The constructor arguments file, line and function
  name carry no behaviour and are left out.
\<close>

datatype exception_class = NotImplemented | InvalidParameter

datatype thrown = ThrowObject exception_class | ThrowPointer exception_class

definition preCheck :: "'param \<Rightarrow> thrown + 'param" where
  "preCheck param = Inl (ThrowPointer NotImplemented)"

text \<open>The \<^verbatim>\<open>@throws\<close> line of the documentation of \<^verbatim>\<open>preCheck\<close> (line 170).\<close>

definition preCheck_documented_throws :: exception_class where
  "preCheck_documented_throws = InvalidParameter"

definition setUpHook :: "'features \<Rightarrow> thrown + 'features" where
  "setUpHook features = Inr features"

definition postDigestHook :: "'features \<Rightarrow> thrown + 'features" where
  "postDigestHook features_to_simulate = Inl (ThrowObject NotImplemented)"

definition postRTHook :: "'features \<Rightarrow> thrown + 'features" where
  "postRTHook features_to_simulate = Inl (ThrowObject NotImplemented)"

definition postDetectabilityHook :: "'features \<Rightarrow> thrown + 'features" where
  "postDetectabilityHook features_to_simulate = Inl (ThrowObject NotImplemented)"

definition postIonizationHook :: "'features \<Rightarrow> thrown + 'features" where
  "postIonizationHook features_to_simulate = Inl (ThrowObject NotImplemented)"

definition postRawMSHook :: "'features \<Rightarrow> thrown + 'features" where
  "postRawMSHook features_to_simulate = Inl (ThrowObject NotImplemented)"

definition postRawTandemMSHook :: "'features \<Rightarrow> 'experiment \<Rightarrow> thrown + 'features \<times> 'experiment" where
  "postRawTandemMSHook features_to_simulate simulated_map = Inl (ThrowObject NotImplemented)"

text \<open>
  The members of the group "Labeling Hooks" (lines 177 to 224), and a call of one of them
  on a labeler that does not override it. The simulation state is the feature maps and
  the simulated experiment; only \<^verbatim>\<open>postRawTandemMSHook\<close> receives both.
\<close>

datatype hook =
    SetUpHook
  | PostDigestHook
  | PostRTHook
  | PostDetectabilityHook
  | PostIonizationHook
  | PostRawMSHook
  | PostRawTandemMSHook

definition with_experiment :: "'experiment \<Rightarrow> thrown + 'features \<Rightarrow> thrown + 'features \<times> 'experiment" where
  "with_experiment e r = (case r of Inl t \<Rightarrow> Inl t | Inr f \<Rightarrow> Inr (f, e))"

fun invoke_hook :: "hook \<Rightarrow> 'features \<times> 'experiment \<Rightarrow> thrown + 'features \<times> 'experiment" where
  "invoke_hook SetUpHook (f, e) = with_experiment e (setUpHook f)"
| "invoke_hook PostDigestHook (f, e) = with_experiment e (postDigestHook f)"
| "invoke_hook PostRTHook (f, e) = with_experiment e (postRTHook f)"
| "invoke_hook PostDetectabilityHook (f, e) = with_experiment e (postDetectabilityHook f)"
| "invoke_hook PostIonizationHook (f, e) = with_experiment e (postIonizationHook f)"
| "invoke_hook PostRawMSHook (f, e) = with_experiment e (postRawMSHook f)"
| "invoke_hook PostRawTandemMSHook (f, e) = postRawTandemMSHook f e"

text \<open>
  The handlers of a caller, as C++ matches them against what was thrown: a handler for a
  class, taking the exception by value or by reference, matches a thrown object of that
  class and no pointer; a handler for a pointer to the class matches a thrown pointer;
  \<^verbatim>\<open>catch (...)\<close> matches everything. Handlers that name a base class are not modelled:
  the exception classes are declared outside the files at hand.
\<close>

datatype handler =
    CatchByValue exception_class
  | CatchByReference exception_class
  | CatchPointer exception_class
  | CatchEllipsis

fun catches :: "handler \<Rightarrow> thrown \<Rightarrow> bool" where
  "catches (CatchByValue c) (ThrowObject c') = (c' = c)"
| "catches (CatchByValue c) (ThrowPointer c') = False"
| "catches (CatchByReference c) (ThrowObject c') = (c' = c)"
| "catches (CatchByReference c) (ThrowPointer c') = False"
| "catches (CatchPointer c) (ThrowObject c') = False"
| "catches (CatchPointer c) (ThrowPointer c') = (c' = c)"
| "catches CatchEllipsis t = True"

definition caught_by :: "handler \<Rightarrow> thrown + 'a \<Rightarrow> bool" where
  "caught_by h r = (case r of Inl t \<Rightarrow> catches h t | Inr v \<Rightarrow> False)"

definition thrown_class :: "thrown \<Rightarrow> exception_class" where
  "thrown_class t = (case t of ThrowObject c \<Rightarrow> c | ThrowPointer c \<Rightarrow> c)"

subsection \<open>MRMAssay::uisTransitions: the declaration (MRMAssay.h, lines 145 to 156)\<close>

text \<open>
  The declaration gives the last four parameters default arguments. A call passes the
  eight leading arguments and any prefix of the last four; the defaults fill the rest.
  \<open>uis_parameters\<close> is what the body of the function receives.
\<close>

record 'e uis_required =
  uis_exp :: "'e"
  uis_fragment_types :: "string list"
  uis_fragment_charges :: "nat list"
  uis_enable_specific_losses :: bool
  uis_enable_unspecific_losses :: bool
  uis_enable_ms2_precursors :: bool
  uis_mz_threshold :: real
  uis_swathes :: "(real \<times> real) list"

record 'e uis_parameters =
  required :: "'e uis_required"
  round_decPow :: int
  max_num_alternative_localizations :: nat
  shuffle_seed :: int
  disable_decoy_transitions :: bool

datatype trailing_arguments =
    Omit_all
  | Pass_1 int
  | Pass_2 int nat
  | Pass_3 int nat int
  | Pass_4 int nat int bool

fun uisTransitions_call :: "'e uis_required \<Rightarrow> trailing_arguments \<Rightarrow> 'e uis_parameters" where
  "uisTransitions_call r Omit_all =
     \<lparr>required = r, round_decPow = - 4, max_num_alternative_localizations = 20,
      shuffle_seed = - 1, disable_decoy_transitions = False\<rparr>"
| "uisTransitions_call r (Pass_1 p) =
     \<lparr>required = r, round_decPow = p, max_num_alternative_localizations = 20,
      shuffle_seed = - 1, disable_decoy_transitions = False\<rparr>"
| "uisTransitions_call r (Pass_2 p n) =
     \<lparr>required = r, round_decPow = p, max_num_alternative_localizations = n,
      shuffle_seed = - 1, disable_decoy_transitions = False\<rparr>"
| "uisTransitions_call r (Pass_3 p n s) =
     \<lparr>required = r, round_decPow = p, max_num_alternative_localizations = n,
      shuffle_seed = s, disable_decoy_transitions = False\<rparr>"
| "uisTransitions_call r (Pass_4 p n s d) =
     \<lparr>required = r, round_decPow = p, max_num_alternative_localizations = n,
      shuffle_seed = s, disable_decoy_transitions = d\<rparr>"

text \<open>
  A call runs the body on the parameters bound this way. The body is in MRMAssay.cpp and
  is a parameter here.
\<close>

definition uisTransitions :: "('e uis_parameters \<Rightarrow> 'e) \<Rightarrow> 'e uis_required \<Rightarrow> trailing_arguments \<Rightarrow> 'e" where
  "uisTransitions body r t = body (uisTransitions_call r t)"

subsection \<open>MRMAssay: the helpers declared in MRMAssay.h\<close>

text \<open>
  MRMAssay.h declares the helpers below; their bodies are in MRMAssay.cpp. The
  \<^verbatim>\<open>double\<close> values are modelled as reals, so rounding in \<^verbatim>\<open>double\<close> arithmetic is
  outside the model. The names drop the trailing underscore of the C++ names.
\<close>

text \<open>
  Modelled from the spec: the body of \<^verbatim>\<open>getMatchingPeptidoforms_\<close> (declared in MRMAssay.h,
  lines 168 to 170). The spec, section 4.7: it "scans the candidate ion list for the same
  swath window and returns the labels of every peptidoform whose stored m/z lies within
  +/- mz_threshold of fragment_ion (inclusive bounds)".
\<close>

primrec getMatchingPeptidoforms :: "real \<Rightarrow> (real \<times> string) list \<Rightarrow> real \<Rightarrow> string list" where
  "getMatchingPeptidoforms fragment_ion [] mz_threshold = []"
| "getMatchingPeptidoforms fragment_ion (ion # ions) mz_threshold =
     (if fragment_ion - mz_threshold \<le> fst ion \<and> fst ion \<le> fragment_ion + mz_threshold
      then snd ion # getMatchingPeptidoforms fragment_ion ions mz_threshold
      else getMatchingPeptidoforms fragment_ion ions mz_threshold)"

definition example_ions :: "(real \<times> string) list" where
  "example_ions = [(500.0, ''A''), (500.0005, ''B''), (600.0, ''C'')]"

text \<open>
  Modelled from the spec: the body of \<^verbatim>\<open>getSwath_\<close> (declared in MRMAssay.h, line 180).
  The spec, section 4.2: a "linear scan returning the index of the first window whose
  bounds contain precursor_mz, or a sentinel "not found" value (e.g., -1) if none
  matches". A window contains its two bounds.
\<close>

definition in_window :: "real \<times> real \<Rightarrow> real \<Rightarrow> bool" where
  "in_window w mz = (fst w \<le> mz \<and> mz \<le> snd w)"

primrec swath_scan :: "(real \<times> real) list \<Rightarrow> nat \<Rightarrow> real \<Rightarrow> int" where
  "swath_scan [] i precursor_mz = - 1"
| "swath_scan (w # ws) i precursor_mz =
     (if in_window w precursor_mz then int i else swath_scan ws (Suc i) precursor_mz)"

definition getSwath :: "(real \<times> real) list \<Rightarrow> real \<Rightarrow> int" where
  "getSwath swathes precursor_mz = swath_scan swathes 0 precursor_mz"

definition example_swathes :: "(real \<times> real) list" where
  "example_swathes = [(400, 500), (500, 600)]"



section \<open>Theorems\<close>

subsection \<open>JavaInfo::canRun\<close>

lemma started_do_action:
  "started (do_action a st) =
     started st @ (case a of QProcess_start e args \<Rightarrow> [(e, args)] | LOG_ERROR m \<Rightarrow> [])"
  by (simp add: started_def do_action_def)

lemma logged_do_action:
  "logged (do_action a st) =
     logged st @ (case a of LOG_ERROR m \<Rightarrow> [m] | QProcess_start e args \<Rightarrow> [])"
  by (simp add: logged_def do_action_def)

lemma started_path_hint: "started (path_hint env x st) = started st"
  by (simp add: path_hint_def Let_def started_do_action) (simp add: started_def)

text \<open>
  Claim C9. When \<^verbatim>\<open>File::find\<close> throws, \<^verbatim>\<open>verbose_on_error\<close> decides the result and not only
  the logging: with the flag set the function returns \<open>False\<close> without starting any process;
  with the flag cleared the exception is swallowed, the process is started with
  \<^verbatim>\<open>-version\<close>, nothing is logged for the failed lookup, and the result is whether that
  process finished.
\<close>

theorem canRun_not_found:
  assumes "File_find env java_executable = None"
  shows "fst (canRun env java_executable True st) = False
       \<and> started (snd (canRun env java_executable True st)) = started st
       \<and> fst (canRun env java_executable False st) = waitForFinished env java_executable [''-version'']
       \<and> started (snd (canRun env java_executable False st)) =
           started st @ [(java_executable, [''-version''])]
       \<and> logged (snd (canRun env java_executable False st)) = logged st"
proof -
  have t: "canRun env java_executable True st =
      (False, path_hint env java_executable (do_action (LOG_ERROR (JavaNotFound java_executable)) st))"
    using assms by (simp add: canRun_def)
  have f: "canRun env java_executable False st =
      (waitForFinished env java_executable [''-version''],
       do_action (QProcess_start java_executable [''-version'']) st)"
    using assms by (simp add: canRun_def check_run_def Let_def)
  show ?thesis
    unfolding t f by (simp add: started_path_hint started_do_action logged_do_action)
qed

theorem canRun_not_found_witness:
  "File_find env_lookup_fails ''java'' = None
   \<and> fst (canRun env_lookup_fails ''java'' True fresh) = False
   \<and> started (snd (canRun env_lookup_fails ''java'' True fresh)) = []
   \<and> fst (canRun env_lookup_fails ''java'' False fresh) = True
   \<and> started (snd (canRun env_lookup_fails ''java'' False fresh)) = [(''java'', [''-version''])]"
proof -
  have h: "File_find env_lookup_fails ''java'' = None"
    by (simp add: env_lookup_fails_def)
  have s: "started fresh = []"
    by (simp add: started_def fresh_def)
  have w: "waitForFinished env_lookup_fails ''java'' [''-version''] = True"
    by (simp add: env_lookup_fails_def)
  show ?thesis
    using h s w canRun_not_found [OF h, of fresh] by simp
qed

subsection \<open>BaseLabeler\<close>

lemma throwing_hooks:
  "postDigestHook f = Inl (ThrowObject NotImplemented)"
  "postRTHook f = Inl (ThrowObject NotImplemented)"
  "postDetectabilityHook f = Inl (ThrowObject NotImplemented)"
  "postIonizationHook f = Inl (ThrowObject NotImplemented)"
  "postRawMSHook f = Inl (ThrowObject NotImplemented)"
  "postRawTandemMSHook f e = Inl (ThrowObject NotImplemented)"
  by (simp_all add: postDigestHook_def postRTHook_def postDetectabilityHook_def
      postIonizationHook_def postRawMSHook_def postRawTandemMSHook_def)

text \<open>
  Claim C3, as amended. Invoked on a labeler that does not override them, the hooks
  \<^verbatim>\<open>postDigestHook\<close>, \<^verbatim>\<open>postRTHook\<close>, \<^verbatim>\<open>postDetectabilityHook\<close>, \<^verbatim>\<open>postIonizationHook\<close>,
  \<^verbatim>\<open>postRawMSHook\<close> and \<^verbatim>\<open>postRawTandemMSHook\<close> throw a \<^verbatim>\<open>NotImplemented\<close> object at once;
  \<^verbatim>\<open>setUpHook\<close> does not: it returns normally and leaves its argument as it was.
\<close>

theorem unimplemented_hooks:
  "invoke_hook h (f, e) =
     (if h = SetUpHook then Inr (f, e) else Inl (ThrowObject NotImplemented))"
  by (cases h) (simp_all add: throwing_hooks setUpHook_def with_experiment_def)

text \<open>
  The claim as stated fails at \<^verbatim>\<open>setUpHook\<close>: the call returns, with the state unchanged.
\<close>

theorem setUpHook_silent:
  "setUpHook [1::nat] = Inr [1]
   \<and> invoke_hook SetUpHook ([1::nat], [2::nat]) = Inr ([1], [2])
   \<and> \<not> isl (invoke_hook SetUpHook ([1::nat], [2::nat]))"
  by (simp add: setUpHook_def with_experiment_def)

text \<open>
  Claim C10. \<^verbatim>\<open>preCheck\<close> throws on every argument, and what it throws is a pointer
  (\<^verbatim>\<open>throw new\<close>), where \<^verbatim>\<open>postDigestHook\<close> throws an object. A handler for
  \<^verbatim>\<open>Exception::NotImplemented\<close>, by value or by reference, therefore catches the throw of
  \<^verbatim>\<open>postDigestHook\<close> and not the one of \<^verbatim>\<open>preCheck\<close>, which only a pointer handler (or
  \<^verbatim>\<open>catch (...)\<close>) catches. The class the documentation of \<^verbatim>\<open>preCheck\<close> names is
  \<^verbatim>\<open>InvalidParameter\<close>, and a handler for it does not catch the throw either.
\<close>

theorem preCheck_throws_pointer:
  "preCheck param = Inl (ThrowPointer NotImplemented)
   \<and> postDigestHook features = Inl (ThrowObject NotImplemented)
   \<and> caught_by (CatchByValue NotImplemented) (postDigestHook features)
   \<and> caught_by (CatchByReference NotImplemented) (postDigestHook features)
   \<and> \<not> caught_by (CatchByValue NotImplemented) (preCheck param)
   \<and> \<not> caught_by (CatchByReference NotImplemented) (preCheck param)
   \<and> caught_by (CatchPointer NotImplemented) (preCheck param)
   \<and> \<not> caught_by (CatchByReference preCheck_documented_throws) (preCheck param)
   \<and> \<not> caught_by (CatchByValue preCheck_documented_throws) (preCheck param)
   \<and> preCheck_documented_throws = InvalidParameter"
  by (simp add: preCheck_def postDigestHook_def caught_by_def preCheck_documented_throws_def)

subsection \<open>MRMAssay::uisTransitions\<close>

text \<open>
  Claim C8. A call of \<^verbatim>\<open>uisTransitions\<close> that omits the trailing arguments runs the body on
  the same parameters as the call that passes \<^verbatim>\<open>round_decPow = -4\<close>,
  \<^verbatim>\<open>max_num_alternative_localizations = 20\<close>, \<^verbatim>\<open>shuffle_seed = -1\<close> and
  \<^verbatim>\<open>disable_decoy_transitions = false\<close>, whatever the body is; the same holds for a call
  that passes only a prefix of the four. The header documents \<^verbatim>\<open>shuffle_seed = -1\<close> as
  "select seed based on time" (line 142).
\<close>

theorem uisTransitions_defaults:
  "uisTransitions_call r Omit_all = uisTransitions_call r (Pass_4 (- 4) 20 (- 1) False)
   \<and> uisTransitions_call r (Pass_1 p) = uisTransitions_call r (Pass_4 p 20 (- 1) False)
   \<and> uisTransitions_call r (Pass_2 p n) = uisTransitions_call r (Pass_4 p n (- 1) False)
   \<and> uisTransitions_call r (Pass_3 p n s) = uisTransitions_call r (Pass_4 p n s False)
   \<and> uisTransitions body r Omit_all = uisTransitions body r (Pass_4 (- 4) 20 (- 1) False)
   \<and> round_decPow (uisTransitions_call r Omit_all) = - 4
   \<and> max_num_alternative_localizations (uisTransitions_call r Omit_all) = 20
   \<and> shuffle_seed (uisTransitions_call r Omit_all) = - 1
   \<and> disable_decoy_transitions (uisTransitions_call r Omit_all) = False"
  by (simp add: uisTransitions_def)

subsection \<open>getMatchingPeptidoforms\<close>

lemma getMatchingPeptidoforms_filter:
  "getMatchingPeptidoforms f ions t = map snd (filter (\<lambda>p. \<bar>f - fst p\<bar> \<le> t) ions)"
  by (induction ions) (auto simp: abs_le_iff)

lemma getMatchingPeptidoforms_examples:
  "getMatchingPeptidoforms 500.0002 example_ions 0.001 = [''A'', ''B'']"
  "getMatchingPeptidoforms 600.0 example_ions 0.001 = [''C'']"
  by (simp_all add: example_ions_def)

text \<open>
  Claim C1. For every queried m/z \<open>f\<close>, ion list and threshold \<open>t\<close>, the labels returned are
  those of the pairs whose stored m/z \<open>d\<close> has \<open>\<bar>f - d\<bar> \<le> t\<close>, in the order of the list;
  the bounds are inclusive and symmetric. On the ions (500.0, A), (500.0005, B),
  (600.0, C) with threshold 0.001, the query 500.0002 returns A and B and the query 600.0
  returns C only.
\<close>

theorem getMatchingPeptidoforms_spec:
  "getMatchingPeptidoforms f ions t = map snd (filter (\<lambda>p. \<bar>f - fst p\<bar> \<le> t) ions)
   \<and> set (getMatchingPeptidoforms f ions t) = snd ` {p \<in> set ions. \<bar>f - fst p\<bar> \<le> t}
   \<and> getMatchingPeptidoforms 500.0002 example_ions 0.001 = [''A'', ''B'']
   \<and> getMatchingPeptidoforms 600.0 example_ions 0.001 = [''C'']"
proof -
  have "set (getMatchingPeptidoforms f ions t) = snd ` {p \<in> set ions. \<bar>f - fst p\<bar> \<le> t}"
    unfolding getMatchingPeptidoforms_filter by simp
  with getMatchingPeptidoforms_filter [of f ions t] getMatchingPeptidoforms_examples
  show ?thesis by blast
qed

subsection \<open>getSwath\<close>

lemma swath_scan_none:
  "(\<forall>w \<in> set ws. \<not> in_window w mz) \<Longrightarrow> swath_scan ws i mz = - 1"
  by (induction ws arbitrary: i) simp_all

lemma swath_scan_first:
  "j < length ws \<Longrightarrow> in_window (ws ! j) mz \<Longrightarrow> (\<forall>l < j. \<not> in_window (ws ! l) mz)
   \<Longrightarrow> swath_scan ws i mz = int (i + j)"
proof (induction ws arbitrary: i j)
  case Nil
  then show ?case by simp
next
  case (Cons w ws)
  show ?case
  proof (cases j)
    case 0
    with Cons.prems show ?thesis by simp
  next
    case (Suc j')
    from Cons.prems Suc have nw: "\<not> in_window w mz" by auto
    from Cons.prems Suc have "j' < length ws" "in_window (ws ! j') mz"
      "\<forall>l < j'. \<not> in_window (ws ! l) mz" by auto
    then have "swath_scan ws (Suc i) mz = int (Suc i + j')" by (rule Cons.IH)
    with nw Suc show ?thesis by simp
  qed
qed

lemma swath_scan_sentinel:
  "(swath_scan ws i mz = - 1) = (\<forall>w \<in> set ws. \<not> in_window w mz)"
proof (induction ws arbitrary: i)
  case Nil
  show ?case by simp
next
  case (Cons w ws)
  then show ?case by auto
qed

text \<open>
  Claim C6. \<^verbatim>\<open>getSwath_\<close> returns the sentinel -1 exactly when no window contains
  \<open>precursor_mz\<close>, and otherwise the index of the first window that contains it. On the
  windows (400, 500), (500, 600) it returns 0 for 450, 1 for 550 and -1 for 650.
\<close>

theorem getSwath_spec:
  "((\<forall>w \<in> set swathes. \<not> in_window w precursor_mz) \<longrightarrow> getSwath swathes precursor_mz = - 1)
   \<and> (\<forall>j < length swathes.
         in_window (swathes ! j) precursor_mz \<and> (\<forall>l < j. \<not> in_window (swathes ! l) precursor_mz)
         \<longrightarrow> getSwath swathes precursor_mz = int j)
   \<and> (getSwath swathes precursor_mz = - 1) = (\<forall>w \<in> set swathes. \<not> in_window w precursor_mz)
   \<and> getSwath example_swathes 450 = 0
   \<and> getSwath example_swathes 550 = 1
   \<and> getSwath example_swathes 650 = - 1"
proof -
  have a: "(\<forall>w \<in> set swathes. \<not> in_window w precursor_mz) \<longrightarrow> getSwath swathes precursor_mz = - 1"
    by (simp add: getSwath_def swath_scan_none)
  have b: "\<forall>j < length swathes.
         in_window (swathes ! j) precursor_mz \<and> (\<forall>l < j. \<not> in_window (swathes ! l) precursor_mz)
         \<longrightarrow> getSwath swathes precursor_mz = int j"
    using swath_scan_first [of _ swathes precursor_mz 0] by (simp add: getSwath_def)
  have c: "(getSwath swathes precursor_mz = - 1) = (\<forall>w \<in> set swathes. \<not> in_window w precursor_mz)"
    by (simp add: getSwath_def swath_scan_sentinel)
  have e: "getSwath example_swathes 450 = 0" "getSwath example_swathes 550 = 1"
    "getSwath example_swathes 650 = - 1"
    by (simp_all add: getSwath_def example_swathes_def in_window_def)
  from a b c e show ?thesis by blast
qed

theorem getSwath_spec_witness:
  "in_window (example_swathes ! 1) 550
   \<and> \<not> in_window (example_swathes ! 0) 550
   \<and> getSwath example_swathes 550 = 1
   \<and> \<not> in_window (example_swathes ! 0) 650
   \<and> \<not> in_window (example_swathes ! 1) 650
   \<and> getSwath example_swathes 650 = - 1"
proof -
  have l: "length example_swathes = 2" by (simp add: example_swathes_def)
  have h1: "in_window (example_swathes ! 1) 550" "\<not> in_window (example_swathes ! 0) 550"
    by (simp_all add: example_swathes_def in_window_def)
  have h2: "\<not> in_window (example_swathes ! 0) 650" "\<not> in_window (example_swathes ! 1) 650"
    by (simp_all add: example_swathes_def in_window_def)
  have "\<forall>l < (1::nat). \<not> in_window (example_swathes ! l) 550"
    using h1 by simp
  with h1 l getSwath_spec [of example_swathes 550] have r1: "getSwath example_swathes 550 = 1"
    by simp
  have "\<forall>w \<in> set example_swathes. \<not> in_window w 650"
    by (simp add: example_swathes_def in_window_def)
  with getSwath_spec [of example_swathes 650] have r2: "getSwath example_swathes 650 = - 1"
    by blast
  from h1 h2 r1 r2 show ?thesis by simp
qed

subsection \<open>nchoosekcombinations\<close>










lemma index_set_length: "length (sort (remdups n)) = card (set n)"
  by (simp add: length_remdups_card_conv)






end
